theory Spec2Isabelle
  imports Main "HOL-Library.Char_ord" "HOL-Library.List_Lexorder"
begin

section \<open>C strings and the C library\<close>

text \<open>
  Bytes read from and written to a stream are values of type \<open>string\<close>. A C string is
  the part of a buffer before its first NUL byte; \<open>c_str\<close> takes that view of a buffer,
  as \<open>strtok\<close>, \<open>strchr\<close>, \<open>strlen\<close>, \<open>strcmp\<close> and \<open>fputs\<close> do.
\<close>

abbreviation NUL :: char where "NUL \<equiv> CHR 0x00"
abbreviation LF :: char where "LF \<equiv> CHR 0x0A"
abbreviation CR :: char where "CR \<equiv> CHR 0x0D"
abbreviation DQUOTE :: char where "DQUOTE \<equiv> CHR 0x22"

text \<open>The macro \<open>streq(a, b)\<close>, \<open>strcmp(a, b) == 0\<close>, on C strings.\<close>

abbreviation (input) streq :: "string \<Rightarrow> string \<Rightarrow> bool" where
  "streq a b \<equiv> a = b"

definition c_str :: "string \<Rightarrow> string" where
  "c_str bs = takeWhile (\<lambda>c. c \<noteq> NUL) bs"

text \<open>\<open>isspace\<close> of \<open><ctype.h>\<close> in the C locale (the server never calls setlocale).\<close>

definition isspace :: "char \<Rightarrow> bool" where
  "isspace c = (c \<in> set [CHR '' '', CHR 0x09, CHR 0x0A, CHR 0x0B, CHR 0x0C, CHR 0x0D])"

text \<open>\<open>BUFSIZ\<close> of \<open><stdio.h>\<close>, the size of every line buffer of the server (glibc: 8192).\<close>

definition BUFSIZ :: nat where
  "BUFSIZ = 8192"

text \<open>The bytes of a stream up to and including its first newline.\<close>

definition read_line :: "string \<Rightarrow> string" where
  "read_line s = takeWhile (\<lambda>c. c \<noteq> LF) s @ take 1 (dropWhile (\<lambda>c. c \<noteq> LF) s)"

text \<open>
  \<open>fgets(buffer, n, f)\<close> on the unread bytes \<open>s\<close> of \<open>f\<close>: NULL (\<open>None\<close>) at end of
  file, otherwise the buffer and the bytes left unread. It stops after a newline or after
  \<open>n - 1\<close> bytes, whichever comes first.
\<close>

definition fgets :: "nat \<Rightarrow> string \<Rightarrow> (string \<times> string) option" where
  "fgets n s =
     (if s = [] then None
      else let b = take (n - 1) (read_line s) in Some (b, drop (length b) s))"

text \<open>
  \<open>strtok(s, delim)\<close>: skips leading delimiters; NULL when nothing is left; otherwise the
  token up to the next delimiter, and the saved pointer just past that delimiter.
\<close>

definition strtok :: "string \<Rightarrow> string \<Rightarrow> (string \<times> string) option" where
  "strtok s delim =
     (let s1 = dropWhile (\<lambda>c. c \<in> set delim) s in
      if s1 = [] then None
      else Some (takeWhile (\<lambda>c. c \<notin> set delim) s1,
                 drop 1 (dropWhile (\<lambda>c. c \<notin> set delim) s1)))"

text \<open>\<open>strchr(s, c)\<close>: the offset of the first \<open>c\<close> in \<open>s\<close>, NULL when there is none.\<close>

definition strchr :: "string \<Rightarrow> char \<Rightarrow> nat option" where
  "strchr s c = (if c \<in> set s then Some (length (takeWhile (\<lambda>d. d \<noteq> c) s)) else None)"

text \<open>
  Modelled from the spec: \<open>skip_nonwhitespace\<close> and \<open>skip_whitespace\<close> are functions of
  utils.c, which is not among the sources. The spec has the header value be the text after
  the colon "with leading whitespace ... trimmed"; following their names, each returns its
  argument advanced past the leading non-whitespace (whitespace) characters.
\<close>

definition skip_nonwhitespace :: "string \<Rightarrow> string" where
  "skip_nonwhitespace s = dropWhile (\<lambda>c. \<not> isspace c) s"

definition skip_whitespace :: "string \<Rightarrow> string" where
  "skip_whitespace s = dropWhile isspace s"

section \<open>Requests (spidey.h)\<close>

text \<open>
  The socket stream \<open>r->file\<close>, opened by \<open>fdopen(client_fd, "w+")\<close>. \<open>unread\<close> holds the
  bytes of the client the server has not consumed yet. The request is taken to have
  arrived when its first line is read: the first read of the stream fills its buffer with
  the whole of it, and what the server has not consumed is input read ahead. \<open>written\<close>
  holds the bytes \<open>fprintf\<close>, \<open>fwrite\<close> and \<open>fputs\<close> have put into the stream; they
  reach the client when a flush succeeds. \<open>flush_ok\<close> tells whether the socket takes
  the bytes when the stream writes them out.
\<close>

record stream =
  unread :: string
  written :: string
  flush_ok :: bool

text \<open>
  \<open>fflush(r->file) == 0\<close>. The stream reads and writes through one buffer. While input read
  ahead is left in it, writing the buffer out starts with a seek back over that input,
  which a socket refuses: the flush fails and nothing is sent. With no input left the
  flush succeeds when the socket takes the bytes.
\<close>

definition fflush :: "stream \<Rightarrow> bool" where
  "fflush f = (unread f = [] \<and> flush_ok f)"

text \<open>
  The structs are declared in spidey.h, which is not among the sources; their fields are
  those request.c and handler.c use. The fields \<open>value\<close>, \<open>file\<close> and \<open>method\<close> carry a
  prime here, their names being keywords of Isabelle. A header node, without its \<open>next\<close>
  pointer:
\<close>

record Header =
  name :: string
  value' :: string

text \<open>
  \<open>struct request\<close>. A \<open>char *\<close> field is \<open>None\<close> when it is NULL. \<open>host\<close> and \<open>port\<close>
  are arrays inside the struct. \<open>headers\<close> is the chain of nodes reached from
  \<open>r->headers\<close> through \<open>next\<close>.
\<close>

record Request =
  fd :: int
  file' :: stream
  method' :: "string option"
  uri :: "string option"
  path :: "string option"
  query :: "string option"
  host :: string
  port :: string
  headers :: "Header list"

text \<open>What C leaves undefined, where the server can reach it.\<close>

datatype fault = OutOfBounds | NullDeref | Uninitialised | UseAfterClose

section \<open>request.c: parsing\<close>

text \<open>
  \<open>parse_request_method\<close>: returns 0 or -1 and the request as it has been changed.
  \<open>ws\<close> is the macro \<open>WHITESPACE\<close> of spidey.h, which is not among the sources.
\<close>

definition parse_request_method :: "string \<Rightarrow> Request \<Rightarrow> int \<times> Request" where
  "parse_request_method ws r =
     (case fgets BUFSIZ (unread (file' r)) of
        None \<Rightarrow> (-1, r)
      | Some (buffer, rest) \<Rightarrow>
          let r1 = r\<lparr>file' := (file' r)\<lparr>unread := rest\<rparr>\<rparr> in
          (case strtok (c_str buffer) ws of
             None \<Rightarrow> (-1, r1)
           | Some (m, save) \<Rightarrow>
               (case strtok save ws of
                  None \<Rightarrow> (-1, r1)
                | Some (u, _) \<Rightarrow>
                    (case strchr u (CHR ''?'') of
                       Some i \<Rightarrow>
                         let q = drop (i + 1) u;
                             u' = take (length u - length q - 1) u
                         in (0, r1\<lparr>method' := Some m, uri := Some u', query := Some q\<rparr>)
                     | None \<Rightarrow> (0, r1\<lparr>method' := Some m, uri := Some u\<rparr>)))))"

text \<open>
  One header line, lines 248-271 of request.c, on the buffer \<open>b\<close> as a C string:
  \<open>Inr None\<close> is \<open>goto fail\<close> (no colon), \<open>Inr (Some h)\<close> the node that is built.
  The write through \<open>name + strlen(name) - strlen(value) - 2\<close> lands before the buffer
  when \<open>strlen(name) < strlen(value) + 2\<close>. Failure of \<open>calloc\<close> is left out.
\<close>

definition parse_header_line :: "string \<Rightarrow> fault + Header option" where
  "parse_header_line b =
     (case strchr b (CHR '':'') of
        None \<Rightarrow> Inr None
      | Some i \<Rightarrow>
          let split = skip_nonwhitespace (drop i b);
              value0 = skip_whitespace split;
              v = (case value0 of
                     [] \<Rightarrow> []
                   | c # cs \<Rightarrow> c # rev (dropWhile isspace (rev cs)));
              nm = take (length b - length value0 + length v) b
          in if length nm < length v + 2 then Inl OutOfBounds
             else Inr (Some \<lparr>name = take (length nm - length v - 2) nm, value' = v\<rparr>))"

text \<open>
  Lines 273-279: linking the new node \<open>temp\<close>. \<open>curr\<close> is the position in the chain of
  the node the local pointer \<open>curr\<close> points to (\<open>None\<close>: NULL). Storing \<open>temp\<close>, whose
  \<open>next\<close> is NULL, into the \<open>next\<close> of node \<open>i\<close> cuts the chain after node \<open>i\<close>.
\<close>

definition link_header ::
  "Header list \<Rightarrow> nat option \<Rightarrow> Header \<Rightarrow> fault + (Header list \<times> nat option)" where
  "link_header hs cur temp =
     (if hs = [] then Inr ([temp], cur)
      else if tl hs = [] then Inr ([hd hs, temp], Some 1)
      else (case cur of
              None \<Rightarrow> Inl NullDeref
            | Some i \<Rightarrow> Inr (take (Suc i) hs @ [temp], cur)))"

text \<open>
  The loop of \<open>parse_request_headers\<close> on the unread bytes \<open>s\<close>, the chain \<open>hs\<close> and
  \<open>cur\<close>: the return value, the bytes left unread and the chain.
\<close>

function parse_request_headers_loop ::
  "string \<Rightarrow> Header list \<Rightarrow> nat option \<Rightarrow> fault + (int \<times> string \<times> Header list)" where
  "parse_request_headers_loop s hs cur =
     (case fgets BUFSIZ s of
        None \<Rightarrow> Inr (0, s, hs)
      | Some (buffer, rest) \<Rightarrow>
          if streq (c_str buffer) [LF] \<or> streq (c_str buffer) [CR, LF] then Inr (0, rest, hs)
          else (case parse_header_line (c_str buffer) of
                  Inl f \<Rightarrow> Inl f
                | Inr None \<Rightarrow> Inr (-1, rest, hs)
                | Inr (Some temp) \<Rightarrow>
                    (case link_header hs cur temp of
                       Inl f \<Rightarrow> Inl f
                     | Inr (hs', cur') \<Rightarrow> parse_request_headers_loop rest hs' cur')))"
  by pat_completeness auto
termination
  by (relation "measure (\<lambda>(s, hs, cur). length s)")
     (auto simp: fgets_def BUFSIZ_def read_line_def Let_def neq_Nil_conv split: if_splits)

definition parse_request_headers :: "Request \<Rightarrow> fault + (int \<times> Request)" where
  "parse_request_headers r =
     (case parse_request_headers_loop (unread (file' r)) (headers r) None of
        Inl f \<Rightarrow> Inl f
      | Inr (i, rest, hs) \<Rightarrow> Inr (i, r\<lparr>file' := (file' r)\<lparr>unread := rest\<rparr>, headers := hs\<rparr>))"

definition parse_request :: "string \<Rightarrow> Request \<Rightarrow> fault + (int \<times> Request)" where
  "parse_request ws r =
     (case parse_request_method ws r of
        (i, r1) \<Rightarrow>
          if i \<noteq> 0 then Inr (-1, r1)
          else (case parse_request_headers r1 of
                  Inl f \<Rightarrow> Inl f
                | Inr (j, r2) \<Rightarrow> if j \<noteq> 0 then Inr (-2, r2) else Inr (0, r2)))"

text \<open>
  \<open>accept_request\<close>. \<open>sfd\<close> is the state of the descriptor passed in; \<open>peer\<close> holds what
  the calls answer for the next client: the return values of \<open>accept\<close> (on a listening
  socket) and \<open>getnameinfo\<close>, and the stream \<open>fdopen\<close> returns (\<open>None\<close>: NULL). On a closed
  descriptor \<open>accept\<close> returns -1. \<open>getnameinfo\<close> is passed \<open>hostlen = 0\<close> and \<open>servlen = 0\<close>,
  so it writes nothing: \<open>r->host\<close> and \<open>r->port\<close> stay as \<open>calloc\<close> left them.
\<close>

datatype socket = Listening | Closed

record peer =
  accept_ret :: int
  getnameinfo_ret :: int
  fdopen_ret :: "stream option"

definition accept_request :: "socket \<Rightarrow> peer \<Rightarrow> Request option" where
  "accept_request sfd p =
     (let client_fd = (if sfd = Listening then accept_ret p else -1) in
      if client_fd < 0 then None
      else if getnameinfo_ret p \<noteq> 0 then None
      else (case fdopen_ret p of
              None \<Rightarrow> None
            | Some f \<Rightarrow>
                Some \<lparr>fd = 0, file' = f, method' = None, uri = None, path = None,
                      query = None, host = [], port = [], headers = []\<rparr>))"

section \<open>handler.c\<close>

text \<open>
  \<open>HTTPStatus\<close> is an enum of spidey.h, which is not among the sources; handler.c and
  forking.c compare a status with 0 for success, so \<open>HTTP_STATUS_OK\<close> is the value 0.
\<close>

datatype HTTPStatus =
  HTTP_STATUS_OK | HTTP_STATUS_BAD_REQUEST | HTTP_STATUS_NOT_FOUND
  | HTTP_STATUS_INTERNAL_SERVER_ERROR

text \<open>The type of a filesystem entry, \<open>st_mode & S_IFMT\<close>.\<close>

datatype file_type = S_IFDIR | S_IFREG | S_IFLNK | S_IFCHR | S_IFBLK | S_IFIFO | S_IFSOCK

text \<open>The globals of spidey.c.\<close>

record globals =
  Port :: string
  MimeTypesPath :: string
  DefaultMimeType :: string
  RootPath :: string

text \<open>The process environment, as \<open>setenv\<close> and \<open>popen\<close> see it.\<close>

type_synonym environ = "string \<rightharpoonup> string"

text \<open>
  What handler.c takes from outside: the macro \<open>WHITESPACE\<close> of spidey.h, the globals,
  the functions of utils.c (\<open>http_status_string\<close>, \<open>determine_request_path\<close>,
  \<open>determine_mimetype\<close>), none of them among the sources, and the operating system:
  \<open>lstat\<close> (\<open>None\<close>: it fails), \<open>access(p, X_OK) == 0\<close>, the names \<open>readdir\<close> yields for a
  directory (\<open>None\<close>: it cannot be opened), the bytes of a file \<open>fopen\<close> opens for
  reading, and the output of a command run by \<open>popen\<close> under an environment.
\<close>

record sys =
  WHITESPACE :: string
  globals :: globals
  http_status_string :: "HTTPStatus \<Rightarrow> string"
  determine_request_path :: "string option \<Rightarrow> string option"
  determine_mimetype :: "string \<Rightarrow> string"
  lstat :: "string \<Rightarrow> file_type option"
  access_X_OK :: "string \<Rightarrow> bool"
  readdir :: "string \<Rightarrow> string list option"
  fopen :: "string \<Rightarrow> string option"
  popen :: "environ \<Rightarrow> string \<Rightarrow> string option"

text \<open>\<open>fprintf(r->file, ...)\<close> with the formatted text.\<close>

definition fprintf :: "Request \<Rightarrow> string \<Rightarrow> Request" where
  "fprintf r text = r\<lparr>file' := (file' r)\<lparr>written := written (file' r) @ text\<rparr>\<rparr>"

definition handle_error :: "sys \<Rightarrow> Request \<Rightarrow> HTTPStatus \<Rightarrow> HTTPStatus \<times> Request" where
  "handle_error sy r status =
     (let status_string = http_status_string sy status;
          r1 = fprintf r (''HTTP/1.0 '' @ status_string @ [CR, LF]);
          r2 = fprintf r1 (''Content-Type: '' @ ''text/html'' @ [CR, LF]);
          r3 = fprintf r2 [CR, LF];
          r4 = fprintf r3 (''<h1>'' @ status_string @ ''</h1>'' @ [CR, LF])
      in if \<not> fflush (file' r4) then (HTTP_STATUS_INTERNAL_SERVER_ERROR, r4)
         else (status, r4))"

text \<open>
  \<open>scandir(path, &entries, NULL, alphasort)\<close>: every name of the directory, sorted by
  \<open>alphasort\<close>, which in the C locale compares as \<open>strcmp\<close> does, byte by byte.
\<close>

definition scandir :: "sys \<Rightarrow> string \<Rightarrow> string list option" where
  "scandir sy p = map_option sort (readdir sy p)"

text \<open>
  \<open>basename\<close> of \<open><libgen.h>\<close>: the last component of the path, and the path as the call
  leaves it (trailing slashes are cut off in place).
\<close>

definition basename :: "string option \<Rightarrow> string \<times> string option" where
  "basename po =
     (case po of
        None \<Rightarrow> (''.'', None)
      | Some p \<Rightarrow>
          if p = [] then (''.'', po)
          else let q = rev (dropWhile (\<lambda>c. c = CHR ''/'') (rev p)) in
               if q = [] then (''/'', po)
               else (rev (takeWhile (\<lambda>c. c \<noteq> CHR ''/'') (rev q)), Some q))"

text \<open>
  The handlers are internal to handler.c and run after \<open>handle_request\<close> has set the
  path; a NULL \<open>r->path\<close>, \<open>r->uri\<close> or \<open>r->method\<close> where a string is read is \<open>NullDeref\<close>.
  The loop of \<open>handle_browse_request\<close> over the entries:
\<close>

fun browse_entries :: "string list \<Rightarrow> Request \<Rightarrow> fault + Request" where
  "browse_entries [] r = Inr r"
| "browse_entries (d_name # entries) r =
     (if \<not> streq d_name ''.'' then
        (case uri r of
           None \<Rightarrow> Inl NullDeref
         | Some u \<Rightarrow>
             if \<not> streq u ''/'' then
               (case basename (path r) of
                  (base, p') \<Rightarrow>
                    browse_entries entries
                      (fprintf (r\<lparr>path := p'\<rparr>)
                         (''<li><a href='' @ [DQUOTE] @ ''/'' @ base @ ''/'' @ d_name @ [DQUOTE]
                            @ ''>'' @ d_name @ ''</a></li>'' @ [CR, LF])))
             else
               browse_entries entries
                 (fprintf r
                    (''<li><a href='' @ [DQUOTE] @ ''/'' @ d_name @ [DQUOTE]
                       @ ''>'' @ d_name @ ''</a></li>'' @ [CR, LF])))
      else browse_entries entries r)"

definition handle_browse_request :: "sys \<Rightarrow> Request \<Rightarrow> fault + (HTTPStatus \<times> Request)" where
  "handle_browse_request sy r =
     (case path r of
        None \<Rightarrow> Inl NullDeref
      | Some p \<Rightarrow>
          (case scandir sy p of
             None \<Rightarrow> Inr (HTTP_STATUS_NOT_FOUND, r)
           | Some entries \<Rightarrow>
               let r1 = fprintf r (''HTTP/1.0 200 OK'' @ [CR, LF]);
                   r2 = fprintf r1 (''Content-Type: text/html'' @ [CR, LF]);
                   r3 = fprintf r2 [CR, LF];
                   r4 = fprintf r3 (''<ul>'' @ [CR, LF])
               in (case browse_entries entries r4 of
                     Inl f \<Rightarrow> Inl f
                   | Inr r5 \<Rightarrow>
                       let r6 = fprintf r5 (''</ul>'' @ [CR, LF]) in
                       if \<not> fflush (file' r6) then Inr (HTTP_STATUS_NOT_FOUND, r6)
                       else Inr (HTTP_STATUS_OK, r6))))"

text \<open>\<open>fwrite\<close> of a buffer's bytes and \<open>fputs\<close> of a C string to \<open>r->file\<close>.\<close>

definition fwrite :: "Request \<Rightarrow> string \<Rightarrow> Request" where
  "fwrite r bytes = r\<lparr>file' := (file' r)\<lparr>written := written (file' r) @ bytes\<rparr>\<rparr>"

definition fputs :: "Request \<Rightarrow> string \<Rightarrow> Request" where
  "fputs r buffer = fwrite r (c_str buffer)"

text \<open>The loop of \<open>handle_file_request\<close>: \<open>fread\<close> of up to \<open>BUFSIZ\<close> bytes, then \<open>fwrite\<close>.\<close>

function copy_file :: "string \<Rightarrow> Request \<Rightarrow> Request" where
  "copy_file fs r =
     (let buffer = take BUFSIZ fs in
      if length buffer = 0 then r
      else copy_file (drop (length buffer) fs) (fwrite r buffer))"
  by pat_completeness auto
termination
  by (relation "measure (\<lambda>(fs, r). length fs)") (auto simp: BUFSIZ_def)

text \<open>
  \<open>handle_file_request\<close>. When the flush fails the code has already closed \<open>fs\<close> (line
  172) and closes it again at \<open>fail\<close> (line 184).
\<close>

definition handle_file_request :: "sys \<Rightarrow> Request \<Rightarrow> fault + (HTTPStatus \<times> Request)" where
  "handle_file_request sy r =
     (case path r of
        None \<Rightarrow> Inl NullDeref
      | Some p \<Rightarrow>
          (case fopen sy p of
             None \<Rightarrow> Inr (HTTP_STATUS_INTERNAL_SERVER_ERROR, r)
           | Some fs \<Rightarrow>
               let mimetype = determine_mimetype sy p;
                   r1 = fprintf r (''HTTP/1.0 200 OK'' @ [CR, LF]);
                   r2 = fprintf r1 (''Content-Type: '' @ mimetype @ [CR, LF]);
                   r3 = fprintf r2 [CR, LF];
                   r4 = copy_file fs r3
               in if \<not> fflush (file' r4) then Inl UseAfterClose
                  else Inr (HTTP_STATUS_OK, r4)))"

text \<open>
  \<open>setenv(name, value, 1)\<close> stores the value under the name. Lines 207-220 of
  \<open>handle_cgi_request\<close>: the variables taken from the request and the globals.
\<close>

definition export_request :: "sys \<Rightarrow> Request \<Rightarrow> environ \<Rightarrow> fault + environ" where
  "export_request sy r env =
     (case (method' r, uri r, path r) of
        (Some m, Some u, Some p) \<Rightarrow>
          Inr (env(''DOCUMENT_ROOT'' \<mapsto> RootPath (globals sy),
                   ''QUERY_STRING'' \<mapsto> (case query r of Some q \<Rightarrow> q | None \<Rightarrow> []),
                   ''REMOTE_ADDR'' \<mapsto> host r,
                   ''REMOTE_PORT'' \<mapsto> port r,
                   ''REQUEST_METHOD'' \<mapsto> m,
                   ''REQUEST_URI'' \<mapsto> u,
                   ''SCRIPT_FILENAME'' \<mapsto> p,
                   ''SERVER_PORT'' \<mapsto> Port (globals sy)))
      | _ \<Rightarrow> Inl NullDeref)"

text \<open>
  Lines 223-246: the loop over the chain of headers. \<open>hs\<close> holds each node's name and
  its \<open>value\<close> pointer (\<open>None\<close>: NULL; \<open>parse_request_headers\<close> always stores a string).
  Only the branch for \<open>Host\<close> tests the pointer.
\<close>

fun export_headers :: "(string \<times> string option) list \<Rightarrow> environ \<Rightarrow> fault + environ" where
  "export_headers [] env = Inr env"
| "export_headers ((nm, v) # hs) env =
     (if streq nm ''Host'' then
        (case v of
           Some x \<Rightarrow> export_headers hs (env(''HTTP_HOST'' \<mapsto> x))
         | None \<Rightarrow> export_headers hs (env(''HTTP_HOST'' \<mapsto> [])))
      else if streq nm ''Accept'' then
        (case v of None \<Rightarrow> Inl NullDeref
         | Some x \<Rightarrow> export_headers hs (env(''HTTP_ACCEPT'' \<mapsto> x)))
      else if streq nm ''Accept-Language'' then
        (case v of None \<Rightarrow> Inl NullDeref
         | Some x \<Rightarrow> export_headers hs (env(''HTTP_ACCEPT_LANGUAGE'' \<mapsto> x)))
      else if streq nm ''Accept-Encoding'' then
        (case v of None \<Rightarrow> Inl NullDeref
         | Some x \<Rightarrow> export_headers hs (env(''HTTP_ACCEPT_ENCODING'' \<mapsto> x)))
      else if streq nm ''Connection'' then
        (case v of None \<Rightarrow> Inl NullDeref
         | Some x \<Rightarrow> export_headers hs (env(''HTTP_CONNECTION'' \<mapsto> x)))
      else if streq nm ''User-Agent'' then
        (case v of None \<Rightarrow> Inl NullDeref
         | Some x \<Rightarrow> export_headers hs (env(''HTTP_USER_AGENT'' \<mapsto> x)))
      else export_headers hs env)"

text \<open>The loop copying the output of the script: \<open>fgets\<close>, then \<open>fputs\<close>.\<close>

function cgi_copy :: "string \<Rightarrow> Request \<Rightarrow> Request" where
  "cgi_copy pfs r =
     (case fgets BUFSIZ pfs of
        None \<Rightarrow> r
      | Some (buffer, rest) \<Rightarrow> cgi_copy rest (fputs r buffer))"
  by pat_completeness auto
termination
  by (relation "measure (\<lambda>(pfs, r). length pfs)")
     (auto simp: fgets_def BUFSIZ_def read_line_def Let_def neq_Nil_conv split: if_splits)

definition handle_cgi_request ::
  "sys \<Rightarrow> environ \<Rightarrow> Request \<Rightarrow> fault + (HTTPStatus \<times> Request \<times> environ)" where
  "handle_cgi_request sy env r =
     (case export_request sy r env of
        Inl f \<Rightarrow> Inl f
      | Inr env1 \<Rightarrow>
          (case export_headers (map (\<lambda>h. (name h, Some (value' h))) (headers r)) env1 of
             Inl f \<Rightarrow> Inl f
           | Inr env2 \<Rightarrow>
               (case path r of
                  None \<Rightarrow> Inl NullDeref
                | Some p \<Rightarrow>
                    (case popen sy env2 p of
                       None \<Rightarrow> Inr (HTTP_STATUS_INTERNAL_SERVER_ERROR, r, env2)
                     | Some pfs \<Rightarrow>
                         let r1 = cgi_copy pfs r in
                         if \<not> fflush (file' r1)
                         then Inr (HTTP_STATUS_INTERNAL_SERVER_ERROR, r1, env2)
                         else Inr (HTTP_STATUS_OK, r1, env2)))))"

text \<open>Lines 72-74 of \<open>handle_request\<close>: a status other than 0 goes through \<open>handle_error\<close>.\<close>

definition route_status ::
  "sys \<Rightarrow> HTTPStatus \<times> Request \<times> environ \<Rightarrow> HTTPStatus \<times> Request \<times> environ" where
  "route_status sy x =
     (case x of
        (result, r, env) \<Rightarrow>
          if result \<noteq> HTTP_STATUS_OK
          then (case handle_error sy r result of (result', r') \<Rightarrow> (result', r', env))
          else (result, r, env))"

text \<open>
  \<open>handle_request\<close>. The return value of \<open>lstat\<close> is not tested: when it fails,
  \<open>s.st_mode\<close> is read uninitialised.
\<close>

definition handle_request ::
  "sys \<Rightarrow> environ \<Rightarrow> Request \<Rightarrow> fault + (HTTPStatus \<times> Request \<times> environ)" where
  "handle_request sy env r =
     (case parse_request (WHITESPACE sy) r of
        Inl f \<Rightarrow> Inl f
      | Inr (i, r1) \<Rightarrow>
          if i = -1 then
            (case handle_error sy r1 HTTP_STATUS_BAD_REQUEST of (result, r') \<Rightarrow> Inr (result, r', env))
          else if i = -2 then
            (case handle_error sy r1 HTTP_STATUS_BAD_REQUEST of (result, r') \<Rightarrow> Inr (result, r', env))
          else
            let r2 = r1\<lparr>path := determine_request_path sy (uri r1)\<rparr> in
            (case path r2 of
               None \<Rightarrow>
                 (case handle_error sy r2 HTTP_STATUS_NOT_FOUND of
                    (result, r') \<Rightarrow> Inr (result, r', env))
             | Some p \<Rightarrow>
                 (case lstat sy p of
                    None \<Rightarrow> Inl Uninitialised
                  | Some st_mode \<Rightarrow>
                      if st_mode = S_IFDIR then
                        (case handle_browse_request sy r2 of
                           Inl f \<Rightarrow> Inl f
                         | Inr (result, r') \<Rightarrow> Inr (route_status sy (result, r', env)))
                      else if st_mode = S_IFREG then
                        (if access_X_OK sy p then
                           (case handle_cgi_request sy env r2 of
                              Inl f \<Rightarrow> Inl f
                            | Inr x \<Rightarrow> Inr (route_status sy x))
                         else
                           (case handle_file_request sy r2 of
                              Inl f \<Rightarrow> Inl f
                            | Inr (result, r') \<Rightarrow> Inr (route_status sy (result, r', env))))
                      else Inr (route_status sy (HTTP_STATUS_BAD_REQUEST, r2, env)))))"

section \<open>forking.c\<close>

text \<open>
  The loop of \<open>forking_server\<close> never ends; the model runs it over the clients that
  arrive, one iteration each, each with the answers of \<open>accept_request\<close>'s calls and
  whether \<open>fork\<close> succeeds. It returns what the parent did in each iteration and the
  state of \<open>sfd\<close> afterwards. A child handles its copy of the request and exits. When
  \<open>fork\<close> fails the parent calls \<open>close(sfd)\<close> and continues (lines 34-38).
\<close>

datatype event = Accept_failed | Fork_failed Request | Child_spawned Request

fun forking_server :: "socket \<Rightarrow> (peer \<times> bool) list \<Rightarrow> event list \<times> socket" where
  "forking_server sfd [] = ([], sfd)"
| "forking_server sfd ((p, fork_ok) # clients) =
     (case accept_request sfd p of
        None \<Rightarrow>
          (case forking_server sfd clients of (evs, sfd') \<Rightarrow> (Accept_failed # evs, sfd'))
      | Some client_request \<Rightarrow>
          if \<not> fork_ok then
            (case forking_server Closed clients of
               (evs, sfd') \<Rightarrow> (Fork_failed client_request # evs, sfd'))
          else
            (case forking_server sfd clients of
               (evs, sfd') \<Rightarrow> (Child_spawned client_request # evs, sfd')))"

section \<open>spidey.c\<close>

text \<open>
  \<open>ServerMode\<close> is an enum of spidey.h; \<open>main\<close> leaves \<open>mode\<close> uninitialised (\<open>None\<close>)
  before \<open>parse_options\<close>. A run of \<open>parse_options\<close> or \<open>main\<close> either returns or ends
  the process in \<open>usage\<close>, which prints the usage text and calls \<open>exit(status)\<close>.
\<close>

datatype ServerMode = SINGLE | FORKING

datatype 'a run = Returned 'a | Usage_exit int

text \<open>\<open>argv[i]\<close> for \<open>i \<le> argc\<close>: \<open>argv[argc]\<close> is NULL.\<close>

definition argv_at :: "string list \<Rightarrow> nat \<Rightarrow> string option" where
  "argv_at argv i = (if i < length argv then Some (argv ! i) else None)"

text \<open>
  The loop of \<open>parse_options\<close> from \<open>argind\<close> on. \<open>None\<close>: the loop does not end.
\<close>

partial_function (option) parse_options_loop ::
  "string list \<Rightarrow> nat \<Rightarrow> ServerMode option \<times> globals
     \<Rightarrow> (bool \<times> ServerMode option \<times> globals) run option" where
  "parse_options_loop argv argind st =
     (case argv_at argv argind of
        None \<Rightarrow> Some (Returned (True, st))
      | Some arg \<Rightarrow>
          if \<not> (length arg > 1 \<and> hd arg = CHR ''-'') then Some (Returned (True, st))
          else if streq arg ''-h'' then Some (Usage_exit 0)
          else if streq arg ''-c'' then
            (case argv_at argv (argind + 1) of
               None \<Rightarrow> Some (Returned (False, st))
             | Some ptr \<Rightarrow>
                 if streq ptr ''Single''
                 then parse_options_loop argv (argind + 2) (Some SINGLE, snd st)
                 else if streq ptr ''Forking''
                 then parse_options_loop argv (argind + 2) (Some FORKING, snd st)
                 else Some (Returned (False, st)))
          else if streq arg ''-m'' then
            (case argv_at argv (argind + 1) of
               None \<Rightarrow> Some (Returned (False, st))
             | Some ptr \<Rightarrow>
                 if take 1 ptr = ''-'' then Some (Returned (False, st))
                 else parse_options_loop argv (argind + 2)
                        (fst st, (snd st)\<lparr>MimeTypesPath := ptr\<rparr>))
          else if streq arg ''-M'' then
            (case argv_at argv (argind + 1) of
               None \<Rightarrow> Some (Returned (False, st))
             | Some ptr \<Rightarrow>
                 if take 1 ptr = ''-'' then Some (Returned (False, st))
                 else parse_options_loop argv (argind + 2)
                        (fst st, (snd st)\<lparr>DefaultMimeType := ptr\<rparr>))
          else if streq arg ''-p'' then
            (case argv_at argv (argind + 1) of
               None \<Rightarrow> Some (Returned (False, st))
             | Some ptr \<Rightarrow>
                 if take 1 ptr = ''-'' then Some (Returned (False, st))
                 else parse_options_loop argv (argind + 2) (fst st, (snd st)\<lparr>Port := ptr\<rparr>))
          else if streq arg ''-r'' then
            (case argv_at argv (argind + 1) of
               None \<Rightarrow> Some (Returned (False, st))
             | Some ptr \<Rightarrow>
                 if take 1 ptr = ''-'' then Some (Returned (False, st))
                 else parse_options_loop argv (argind + 2) (fst st, (snd st)\<lparr>RootPath := ptr\<rparr>))
          else parse_options_loop argv argind st)"

definition parse_options ::
  "string list \<Rightarrow> ServerMode option \<times> globals
     \<Rightarrow> (bool \<times> ServerMode option \<times> globals) run option" where
  "parse_options argv st = parse_options_loop argv 1 st"

text \<open>
  Lines 121-128 of \<open>main\<close>: \<open>parse_options\<close>, and \<open>usage(argv[0], 1)\<close> when it returns
  false. \<open>Returned\<close>: \<open>main\<close> goes on to listen with the mode and globals set.
\<close>

definition main_options ::
  "string list \<Rightarrow> globals \<Rightarrow> (ServerMode option \<times> globals) run option" where
  "main_options argv g =
     (case parse_options argv (None, g) of
        None \<Rightarrow> None
      | Some (Usage_exit n) \<Rightarrow> Some (Usage_exit n)
      | Some (Returned (ok, st)) \<Rightarrow> if \<not> ok then Some (Usage_exit 1) else Some (Returned st))"

section \<open>Terms of the specification and concrete inputs\<close>

text \<open>
  The request line \<open>METHOD URI?QUERY HTTP/V\<close> (\<open>METHOD URI HTTP/V\<close> when there is no
  query), terminated by a newline, and what its three parts may not contain: a character of
  \<open>WHITESPACE\<close>, a NUL byte or a newline.
\<close>

definition request_line :: "string \<Rightarrow> string \<Rightarrow> string option \<Rightarrow> string \<Rightarrow> string" where
  "request_line m u qo v =
     m @ '' '' @ u @ (case qo of None \<Rightarrow> [] | Some q \<Rightarrow> ''?'' @ q) @ '' '' @ v @ [LF]"

definition token :: "string \<Rightarrow> string \<Rightarrow> bool" where
  "token ws t = (set t \<inter> set ws = {} \<and> NUL \<notin> set t \<and> LF \<notin> set t)"

text \<open>
  Concrete inputs: space, tab and newline for \<open>WHITESPACE\<close>; a request as
  \<open>accept_request\<close> returns it, on a stream with the bytes \<open>s\<close> to read; a client for which
  every call of \<open>accept_request\<close> succeeds.
\<close>

definition sample_WHITESPACE :: string where
  "sample_WHITESPACE = [CHR '' '', CHR 0x09, LF]"

definition sample_request :: "string \<Rightarrow> bool \<Rightarrow> Request" where
  "sample_request s ok =
     \<lparr>fd = 0, file' = \<lparr>unread = s, written = [], flush_ok = ok\<rparr>, method' = None,
      uri = None, path = None, query = None, host = [], port = [], headers = []\<rparr>"

definition sample_peer :: "string \<Rightarrow> peer" where
  "sample_peer s =
     \<lparr>accept_ret = 4, getnameinfo_ret = 0,
      fdopen_ret = Some \<lparr>unread = s, written = [], flush_ok = True\<rparr>\<rparr>"

text \<open>
  The header names \<open>handle_cgi_request\<close> is specified to export and the variable of each,
  \<open>HTTP_\<close> and the name in upper case with underscores; the variables it sets from the
  request and the globals; what one header adds to an environment.
\<close>

definition cgi_variables :: "(string \<times> string) list" where
  "cgi_variables =
     [(''Host'', ''HTTP_HOST''), (''Accept'', ''HTTP_ACCEPT''),
      (''Accept-Language'', ''HTTP_ACCEPT_LANGUAGE''),
      (''Accept-Encoding'', ''HTTP_ACCEPT_ENCODING''),
      (''Connection'', ''HTTP_CONNECTION''), (''User-Agent'', ''HTTP_USER_AGENT'')]"

definition cgi_variable :: "string \<Rightarrow> string option" where
  "cgi_variable nm = map_of cgi_variables nm"

definition request_variables :: "string list" where
  "request_variables =
     [''DOCUMENT_ROOT'', ''QUERY_STRING'', ''REMOTE_ADDR'', ''REMOTE_PORT'',
      ''REQUEST_METHOD'', ''REQUEST_URI'', ''SCRIPT_FILENAME'', ''SERVER_PORT'']"

definition export_header :: "Header \<Rightarrow> environ \<Rightarrow> environ" where
  "export_header h e = (case cgi_variable (name h) of None \<Rightarrow> e | Some var \<Rightarrow> e(var \<mapsto> value' h))"

text \<open>
  The list item the listing handler is specified to write for an entry \<open>e\<close> of the
  directory \<open>po\<close>, requested under the URI \<open>u\<close>.
\<close>

definition listing_item :: "string \<Rightarrow> string option \<Rightarrow> string \<Rightarrow> string" where
  "listing_item u po e =
     (if u = ''/''
      then ''<li><a href='' @ [DQUOTE] @ ''/'' @ e @ [DQUOTE] @ ''>'' @ e @ ''</a></li>'' @ [CR, LF]
      else ''<li><a href='' @ [DQUOTE] @ ''/'' @ fst (basename po) @ ''/'' @ e @ [DQUOTE]
             @ ''>'' @ e @ ''</a></li>'' @ [CR, LF])"

text \<open>
  A concrete system: a document root \<open>/srv/www\<close> with a directory \<open>docs\<close>, a file
  \<open>index.html\<close>, an executable \<open>hello.sh\<close>, which prints a status line and the value of
  \<open>HTTP_ACCEPT\<close>, and a named pipe; and a request for the executable as \<open>handle_request\<close>
  passes it to \<open>handle_cgi_request\<close>.
\<close>

definition sample_sys :: sys where
  "sample_sys =
     \<lparr>WHITESPACE = sample_WHITESPACE,
      globals = \<lparr>Port = ''9898'', MimeTypesPath = ''/etc/mime.types'',
                  DefaultMimeType = ''text/plain'', RootPath = ''/srv/www''\<rparr>,
      http_status_string =
        (\<lambda>status. case status of
           HTTP_STATUS_OK \<Rightarrow> ''200 OK''
         | HTTP_STATUS_BAD_REQUEST \<Rightarrow> ''400 Bad Request''
         | HTTP_STATUS_NOT_FOUND \<Rightarrow> ''404 Not Found''
         | HTTP_STATUS_INTERNAL_SERVER_ERROR \<Rightarrow> ''500 Internal Server Error''),
      determine_request_path =
        (\<lambda>u. if u = Some ''/'' then Some ''/srv/www''
             else if u = Some ''/docs'' then Some ''/srv/www/docs''
             else if u = Some ''/index.html'' then Some ''/srv/www/index.html''
             else if u = Some ''/hello.sh'' then Some ''/srv/www/hello.sh''
             else if u = Some ''/pipe'' then Some ''/srv/www/pipe''
             else None),
      determine_mimetype = (\<lambda>p. ''text/html''),
      lstat =
        (\<lambda>p. if p = ''/srv/www'' \<or> p = ''/srv/www/docs'' then Some S_IFDIR
             else if p = ''/srv/www/index.html'' \<or> p = ''/srv/www/hello.sh'' then Some S_IFREG
             else if p = ''/srv/www/pipe'' then Some S_IFIFO
             else None),
      access_X_OK = (\<lambda>p. p = ''/srv/www/hello.sh''),
      readdir =
        (\<lambda>p. if p = ''/srv/www''
             then Some [''index.html'', ''.'', ''pipe'', ''..'', ''hello.sh'', ''docs'', ''.hidden'']
             else if p = ''/srv/www/docs'' then Some [''b.txt'', ''..'', ''a.txt'', ''.'']
             else None),
      fopen = (\<lambda>p. if p = ''/srv/www/index.html'' then Some ''<p>hello</p>'' else None),
      popen =
        (\<lambda>env p. if p = ''/srv/www/hello.sh''
                 then Some (''HTTP/1.0 200 OK'' @ [CR, LF, CR, LF]
                            @ (case env ''HTTP_ACCEPT'' of None \<Rightarrow> ''-'' | Some a \<Rightarrow> a))
                 else None)\<rparr>"

definition sample_cgi_request :: "Header list \<Rightarrow> Request" where
  "sample_cgi_request hs =
     (sample_request [] True)
       \<lparr>method' := Some ''GET'', uri := Some ''/hello.sh'', path := Some ''/srv/www/hello.sh'',
        query := Some ''x=1'', headers := hs\<rparr>"

text \<open>
  The four classes of a resolved path the dispatcher is specified to tell apart, from the
  type of the entry and whether it may be executed.
\<close>

datatype entry_class = Directory | Executable | Regular | Unsupported

definition classify :: "file_type \<Rightarrow> bool \<Rightarrow> entry_class" where
  "classify t x =
     (case t of
        S_IFDIR \<Rightarrow> Directory
      | S_IFREG \<Rightarrow> if x then Executable else Regular
      | _ \<Rightarrow> Unsupported)"

text \<open>
  The response the error responder is specified to write for a status, and its answer:
  the status, or InternalServerError when the flush fails, with the request and the
  environment as the caller gets them back.
\<close>

definition error_page :: "sys \<Rightarrow> HTTPStatus \<Rightarrow> string" where
  "error_page sy status =
     ''HTTP/1.0 '' @ http_status_string sy status @ [CR, LF]
       @ ''Content-Type: text/html'' @ [CR, LF] @ [CR, LF]
       @ ''<h1>'' @ http_status_string sy status @ ''</h1>'' @ [CR, LF]"

definition error_response :: "sys \<Rightarrow> environ \<Rightarrow> Request \<Rightarrow> HTTPStatus \<Rightarrow> HTTPStatus \<times> Request \<times> environ" where
  "error_response sy env r status =
     (if fflush (file' r) then status else HTTP_STATUS_INTERNAL_SERVER_ERROR,
      r\<lparr>file' := (file' r)\<lparr>written := written (file' r) @ error_page sy status\<rparr>\<rparr>, env)"




text \<open>
  Further concrete inputs: the request \<open>GET u\<close> after \<open>parse_request\<close>, with no headers;
  a request with a header line of 8192 bytes, newline included, followed by a line without
  a colon.
\<close>

definition sample_parsed :: "string \<Rightarrow> Request" where
  "sample_parsed u = (sample_request [] True)\<lparr>method' := Some ''GET'', uri := Some u\<rparr>"


section \<open>Lemmas on the C library functions\<close>

lemma takeWhile_neq_append:
  "c \<notin> set xs \<Longrightarrow> takeWhile (\<lambda>d. d \<noteq> c) (xs @ ys) = xs @ takeWhile (\<lambda>d. d \<noteq> c) ys"
  by (induction xs) auto

lemma dropWhile_neq_append:
  "c \<notin> set xs \<Longrightarrow> dropWhile (\<lambda>d. d \<noteq> c) (xs @ ys) = dropWhile (\<lambda>d. d \<noteq> c) ys"
  by (induction xs) auto

lemma read_line_line: "LF \<notin> set l \<Longrightarrow> read_line (l @ LF # rest) = l @ [LF]"
  by (simp add: read_line_def takeWhile_neq_append dropWhile_neq_append)

lemma fgets_line:
  assumes "LF \<notin> set l" and "length l + 1 < BUFSIZ"
  shows "fgets BUFSIZ (l @ LF # rest) = Some (l @ [LF], rest)"
  using assms by (simp add: fgets_def read_line_line)

lemma c_str_append: "NUL \<notin> set xs \<Longrightarrow> c_str (xs @ ys) = xs @ c_str ys"
  by (simp add: c_str_def takeWhile_neq_append)

lemma c_str_id: "NUL \<notin> set xs \<Longrightarrow> c_str xs = xs"
  using c_str_append[of xs "[]"] by (simp add: c_str_def)

lemma strtok_token:
  assumes "t \<noteq> []" and "set t \<inter> set ws = {}" and "d \<in> set ws"
  shows "strtok (t @ d # s) ws = Some (t, s)"
proof -
  from assms obtain a t' where t: "t = a # t'" by (cases t) auto
  with assms have a: "a \<notin> set ws" by auto
  have all: "\<And>x. x \<in> set t \<Longrightarrow> x \<notin> set ws" using assms(2) by auto
  have dw: "dropWhile (\<lambda>c. c \<in> set ws) (t @ d # s) = t @ d # s"
    using a t by simp
  have tw: "takeWhile (\<lambda>c. c \<notin> set ws) (t @ d # s) = t"
    using all assms(3) by (simp add: takeWhile_append2)
  have dw2: "dropWhile (\<lambda>c. c \<notin> set ws) (t @ d # s) = d # s"
    using all assms(3) by (simp add: dropWhile_append3)
  show ?thesis
    unfolding strtok_def dw Let_def tw dw2 using t by simp
qed

lemma strtok_last:
  assumes "t \<noteq> []" and "set t \<inter> set ws = {}"
  shows "strtok t ws = Some (t, [])"
proof -
  from assms obtain a t' where t: "t = a # t'" by (cases t) auto
  with assms have a: "a \<notin> set ws" by auto
  have all: "\<And>x. x \<in> set t \<Longrightarrow> x \<notin> set ws" using assms(2) by auto
  have dw: "dropWhile (\<lambda>c. c \<in> set ws) t = t" using a t by simp
  have tw: "takeWhile (\<lambda>c. c \<notin> set ws) t = t" using all by simp
  have dw2: "dropWhile (\<lambda>c. c \<notin> set ws) t = []" using all by simp
  show ?thesis unfolding strtok_def dw Let_def tw dw2 using t by simp
qed

lemma strchr_absent: "c \<notin> set s \<Longrightarrow> strchr s c = None"
  by (simp add: strchr_def)

lemma strchr_first: "c \<notin> set u \<Longrightarrow> strchr (u @ c # q) c = Some (length u)"
  by (simp add: strchr_def takeWhile_neq_append)

section \<open>The request line\<close>

text \<open>
  C2, as amended. For a request line \<open>METHOD URI?QUERY HTTP/V\<close> terminated by a newline that
  fits the line buffer (fewer than \<open>BUFSIZ\<close> bytes with its newline), whose method, URI and
  query hold no whitespace, NUL or newline, \<open>parse_request_method\<close> returns 0 and stores
  the method, the URI (the text before the first question mark) and the query (the text
  after it); for such a line without a question mark it stores the method and the URI and
  leaves the query as it was, which is unset for an accepted request.
\<close>

theorem parse_request_method_request_line:
  assumes inp: "unread (file' r) = request_line m u qo v @ rest"
    and len: "length (request_line m u qo v) < BUFSIZ"
    and sp: "CHR '' '' \<in> set ws"
    and m: "m \<noteq> []" "token ws m"
    and u: "token ws u" "CHR ''?'' \<notin> set u"
    and q: "case qo of None \<Rightarrow> u \<noteq> [] | Some q \<Rightarrow> token ws q \<and> CHR ''?'' \<notin> set ws"
    and v: "LF \<notin> set v"
  shows "parse_request_method ws r =
           (0, r\<lparr>file' := (file' r)\<lparr>unread := rest\<rparr>, method' := Some m, uri := Some u,
                  query := (case qo of None \<Rightarrow> query r | Some q \<Rightarrow> Some q)\<rparr>)"
proof -
  define uq where "uq = u @ (case qo of None \<Rightarrow> [] | Some q \<Rightarrow> ''?'' @ q)"
  define l where "l = m @ '' '' @ uq @ '' '' @ v"
  have line: "request_line m u qo v = l @ [LF]"
    by (simp add: request_line_def l_def uq_def)
  have uq_tok: "uq \<noteq> []" "set uq \<inter> set ws = {}" "NUL \<notin> set uq" "LF \<notin> set uq"
    using u q by (auto simp: uq_def token_def split: option.splits)
  have lf: "LF \<notin> set l"
    using m uq_tok v by (auto simp: l_def token_def)
  have fg: "fgets BUFSIZ (unread (file' r)) = Some (l @ [LF], rest)"
    using fgets_line[OF lf, of rest] len by (simp add: inp line)
  have cs: "c_str (l @ [LF]) = m @ CHR '' '' # uq @ CHR '' '' # c_str (v @ [LF])"
    using m uq_tok c_str_append[of "m @ '' '' @ uq @ '' ''" "v @ [LF]"]
    by (simp add: l_def token_def)
  have t1: "strtok (c_str (l @ [LF])) ws = Some (m, uq @ CHR '' '' # c_str (v @ [LF]))"
    unfolding cs using m sp by (intro strtok_token) (auto simp: token_def)
  have t2: "strtok (uq @ CHR '' '' # c_str (v @ [LF])) ws = Some (uq, c_str (v @ [LF]))"
    using uq_tok sp by (intro strtok_token) auto
  show ?thesis
  proof (cases qo)
    case None
    then have e: "uq = u" by (simp add: uq_def)
    have c: "strchr u (CHR ''?'') = None"
      using u by (simp add: strchr_absent)
    show ?thesis
      using None by (simp add: parse_request_method_def fg t1[unfolded e] t2[unfolded e] c)
  next
    case (Some q')
    then have e: "uq = u @ CHR ''?'' # q'" by (simp add: uq_def)
    have c: "strchr (u @ CHR ''?'' # q') (CHR ''?'') = Some (length u)"
      using u by (simp add: strchr_first)
    show ?thesis
      using Some
      by (simp add: parse_request_method_def fg t1[unfolded e, simplified]
            t2[unfolded e, simplified] c)
  qed
qed

text \<open>
  The theorem at the two example request lines of request.c, each followed by a header
  block.
\<close>

theorem parse_request_method_examples:
  "parse_request_method sample_WHITESPACE
     (sample_request
        (''GET /cgi.script?q=foo HTTP/1.0'' @ [LF] @ ''Host: localhost'' @ [LF, LF]) True)
   = (0, (sample_request (''Host: localhost'' @ [LF, LF]) True)
           \<lparr>method' := Some ''GET'', uri := Some ''/cgi.script'', query := Some ''q=foo''\<rparr>)
   \<and> parse_request_method sample_WHITESPACE
     (sample_request (''GET / HTTP/1.1'' @ [LF] @ ''Host: localhost'' @ [LF, LF]) True)
   = (0, (sample_request (''Host: localhost'' @ [LF, LF]) True)
           \<lparr>method' := Some ''GET'', uri := Some ''/''\<rparr>)"
proof -
  have a: "parse_request_method sample_WHITESPACE
     (sample_request
        (''GET /cgi.script?q=foo HTTP/1.0'' @ [LF] @ ''Host: localhost'' @ [LF, LF]) True)
   = (0, (sample_request (''Host: localhost'' @ [LF, LF]) True)
           \<lparr>method' := Some ''GET'', uri := Some ''/cgi.script'', query := Some ''q=foo''\<rparr>)"
    using parse_request_method_request_line
      [of "sample_request
             (''GET /cgi.script?q=foo HTTP/1.0'' @ [LF] @ ''Host: localhost'' @ [LF, LF]) True"
          "''GET''" "''/cgi.script''" "Some ''q=foo''" "''HTTP/1.0''"
          "''Host: localhost'' @ [LF, LF]" sample_WHITESPACE]
    by (simp add: sample_request_def request_line_def token_def BUFSIZ_def
          sample_WHITESPACE_def)
  have b: "parse_request_method sample_WHITESPACE
     (sample_request (''GET / HTTP/1.1'' @ [LF] @ ''Host: localhost'' @ [LF, LF]) True)
   = (0, (sample_request (''Host: localhost'' @ [LF, LF]) True)
           \<lparr>method' := Some ''GET'', uri := Some ''/''\<rparr>)"
    using parse_request_method_request_line
      [of "sample_request (''GET / HTTP/1.1'' @ [LF] @ ''Host: localhost'' @ [LF, LF]) True"
          "''GET''" "''/''" None "''HTTP/1.1''" "''Host: localhost'' @ [LF, LF]"
          sample_WHITESPACE]
    by (simp add: sample_request_def request_line_def token_def BUFSIZ_def
          sample_WHITESPACE_def)
  from a b show ?thesis by (rule conjI)
qed

text \<open>
  C2 as stated fails on a request line longer than the buffer: with a URI of 8193 bytes
  before the question mark, \<open>fgets\<close> returns the first 8191 bytes of the line, the stored
  URI is cut short and the query stays unset.
\<close>

theorem parse_request_method_long_line:
  "uri (snd (parse_request_method sample_WHITESPACE
        (sample_request
           (request_line ''GET'' (CHR ''/'' # replicate 8192 (CHR ''a'')) (Some ''q'') ''HTTP/1.0'')
           True)))
     = Some (CHR ''/'' # replicate 8186 (CHR ''a''))
   \<and> query (snd (parse_request_method sample_WHITESPACE
        (sample_request
           (request_line ''GET'' (CHR ''/'' # replicate 8192 (CHR ''a'')) (Some ''q'') ''HTTP/1.0'')
           True)))
     = None"
proof -
  define as where "as = replicate 8186 (CHR ''a'')"
  define l where "l = ''GET /'' @ replicate 8192 (CHR ''a'') @ ''?q HTTP/1.0''"
  have line: "request_line ''GET'' (CHR ''/'' # replicate 8192 (CHR ''a'')) (Some ''q'')
                ''HTTP/1.0'' = l @ LF # []"
    by (simp add: request_line_def l_def)
  have "LF \<notin> set l" by (simp add: l_def)
  then have rl: "read_line (l @ LF # []) = l @ [LF]" by (rule read_line_line)
  have tk: "take 8191 (l @ [LF]) = ''GET /'' @ as"
    by (simp add: l_def as_def)
  have ne: "l @ [LF] \<noteq> []" by simp
  have bs: "BUFSIZ - 1 = 8191" by (simp add: BUFSIZ_def)
  have fg: "fgets BUFSIZ (l @ [LF]) =
              Some (''GET /'' @ as, drop (length (''GET /'' @ as)) (l @ [LF]))"
    by (simp only: fgets_def ne if_False rl bs tk Let_def)
  have cs: "c_str (''GET /'' @ as) = ''GET'' @ CHR '' '' # (CHR ''/'' # as)"
    using c_str_id[of "''GET /'' @ as"] by (simp add: as_def)
  have t1: "strtok (''GET'' @ CHR '' '' # (CHR ''/'' # as)) sample_WHITESPACE
              = Some (''GET'', CHR ''/'' # as)"
    by (rule strtok_token) (simp_all add: sample_WHITESPACE_def)
  have t2: "strtok (CHR ''/'' # as) sample_WHITESPACE = Some (CHR ''/'' # as, [])"
    by (rule strtok_last) (simp_all add: sample_WHITESPACE_def as_def)
  have c: "strchr (CHR ''/'' # as) (CHR ''?'') = None"
    by (rule strchr_absent) (simp add: as_def)
  show ?thesis
    unfolding line
    by (simp add: parse_request_method_def sample_request_def fg cs t1 t2 c del: append.simps)
       (simp add: as_def)
qed

section \<open>Accepting a connection\<close>




section \<open>The header list\<close>

text \<open>
  C1 fails on the code. \<open>curr\<close> is set when the second header is linked and never moved:
  every later header is stored into the \<open>next\<close> of the second node, replacing the one
  before it. Of four well-formed headers the third is lost.
\<close>

theorem parse_request_headers_four:
  "parse_request_headers
     (sample_request
        (''A: 1'' @ [CR, LF] @ ''B: 2'' @ [CR, LF] @ ''C: 3'' @ [CR, LF] @ ''D: 4'' @ [CR, LF]
           @ [CR, LF]) True)
   = Inr (0, (sample_request [] True)
               \<lparr>headers := [\<lparr>name = ''A'', value' = ''1''\<rparr>, \<lparr>name = ''B'', value' = ''2''\<rparr>,
                              \<lparr>name = ''D'', value' = ''4''\<rparr>]\<rparr>)"
  by (simp add: parse_request_headers_def sample_request_def fgets_def BUFSIZ_def
        read_line_def c_str_def parse_header_line_def strchr_def skip_nonwhitespace_def
        skip_whitespace_def isspace_def link_header_def)

section \<open>The forking loop\<close>

text \<open>
  A failed \<open>accept_request\<close> leaves the loop as it was, and the next client is accepted
  on the same socket. Once the socket is closed every iteration fails to accept.
\<close>

lemma forking_server_accept_failure:
  assumes "accept_request sfd p = None"
  shows "forking_server sfd ((p, fork_ok) # clients) =
           (Accept_failed # fst (forking_server sfd clients), snd (forking_server sfd clients))"
  using assms by (simp split: prod.splits)

lemma forking_server_Closed:
  "forking_server Closed clients = (replicate (length clients) Accept_failed, Closed)"
  by (induction clients) (auto simp: accept_request_def)

text \<open>
  C8 fails on the code. When \<open>fork\<close> fails the parent closes the listening socket before
  it continues the loop, so every later \<open>accept\<close> fails: of two clients, the second is
  not served although its \<open>fork\<close> would succeed.
\<close>

theorem forking_server_fork_failure:
  "forking_server Listening
     [(sample_peer ''GET /a HTTP/1.0'', False), (sample_peer ''GET /b HTTP/1.0'', True)]
   = ([Fork_failed (sample_request ''GET /a HTTP/1.0'' True), Accept_failed], Closed)"
  by (simp add: accept_request_def sample_peer_def sample_request_def)

section \<open>Command-line options\<close>

text \<open>
  The loop of \<open>parse_options\<close> has no branch for a flag it does not know: \<open>argind\<close> stays
  where it is and the loop runs again on the same argument.
\<close>

lemma parse_options_loop_unknown:
  assumes "argv_at argv argind = Some arg" "length arg > 1" "hd arg = CHR ''-''"
    "arg \<notin> set [''-h'', ''-c'', ''-m'', ''-M'', ''-p'', ''-r'']"
  shows "parse_options_loop argv argind st = None"
proof (rule ccontr)
  assume "parse_options_loop argv argind st \<noteq> None"
  then obtain y where y: "parse_options_loop argv argind st = Some y" by auto
  have "\<not> (argv = argv \<and> argind = argind)"
  proof (rule parse_options_loop.raw_induct
      [where P = "\<lambda>a i s z. \<not> (a = argv \<and> i = argind)", OF _ y], goal_cases)
    case (1 f a i s z)
    show ?case
    proof
      assume "a = argv \<and> i = argind"
      with 1(2) assms have "f argv argind s = Some z" by simp
      with 1(1) show False by blast
    qed
  qed
  then show False by simp
qed

lemma main_options_known_flags:
  "main_options [''spidey'', ''-p'', ''8080'', ''-c'', ''Forking''] g
     = Some (Returned (Some FORKING, g\<lparr>Port := ''8080''\<rparr>))"
  "main_options [''spidey'', ''-c''] g = Some (Usage_exit 1)"
  "main_options [''spidey'', ''-h''] g = Some (Usage_exit 0)"
  by (simp_all add: main_options_def parse_options_def parse_options_loop.simps argv_at_def)

text \<open>
  C9 fails on the code: with the unknown flag \<open>-x\<close>, \<open>parse_options\<close> does not return,
  so \<open>main\<close> neither prints the usage text nor exits.
\<close>

theorem main_options_unknown_flag:
  "main_options [''spidey'', ''-x''] g = None"
  by (simp add: main_options_def parse_options_def
        parse_options_loop_unknown[where arg = "''-x''"] argv_at_def)

section \<open>The environment of a script\<close>

lemma export_headers_fold:
  "export_headers (map (\<lambda>h. (name h, Some (value' h))) hs) env = Inr (fold export_header hs env)"
  by (induction hs arbitrary: env)
     (simp_all add: export_header_def cgi_variable_def cgi_variables_def)

lemma map_of_inj:
  "distinct (map snd xs) \<Longrightarrow> map_of xs a = Some v \<Longrightarrow> map_of xs b = Some v \<Longrightarrow> a = b"
proof (induction xs)
  case Nil
  then show ?case by simp
next
  case (Cons x xs)
  obtain k w where x: "x = (k, w)" by (cases x)
  have notin: "map_of xs c = Some w \<Longrightarrow> False" for c
    using Cons.prems(1) x by (auto dest!: map_of_SomeD simp: image_iff)
  show ?case
  proof (cases "a = k")
    case True
    with Cons.prems x have "v = w" by simp
    with Cons.prems x notin show ?thesis by (cases "b = k") (auto simp: True)
  next
    case False
    with Cons.prems x have a: "map_of xs a = Some v" by simp
    show ?thesis
    proof (cases "b = k")
      case True
      with Cons.prems x have "v = w" by simp
      with a notin show ?thesis by blast
    next
      case False
      with Cons.prems x have "map_of xs b = Some v" by simp
      with a Cons.IH Cons.prems(1) show ?thesis by simp
    qed
  qed
qed

lemma cgi_variable_inj:
  "cgi_variable a = Some v \<Longrightarrow> cgi_variable b = Some v \<Longrightarrow> a = b"
proof -
  have "distinct (map snd cgi_variables)" by (simp add: cgi_variables_def)
  then show "cgi_variable a = Some v \<Longrightarrow> cgi_variable b = Some v \<Longrightarrow> a = b"
    unfolding cgi_variable_def by (rule map_of_inj)
qed

lemma fold_export_header_last:
  assumes "cgi_variable nm = Some var"
  shows "fold export_header hs env var =
           (if filter (\<lambda>h. name h = nm) hs = [] then env var
            else Some (value' (last (filter (\<lambda>h. name h = nm) hs))))"
proof (induction hs rule: rev_induct)
  case Nil
  then show ?case by simp
next
  case (snoc h hs)
  show ?case
  proof (cases "name h = nm")
    case True
    then show ?thesis using assms by (simp add: export_header_def)
  next
    case False
    then have "export_header h e var = e var" for e
      using assms cgi_variable_inj[of "name h" var nm]
      by (auto simp: export_header_def split: option.splits)
    then show ?thesis using False snoc by simp
  qed
qed

lemma fold_export_header_other:
  assumes "\<And>nm. cgi_variable nm \<noteq> Some var"
  shows "fold export_header hs env var = env var"
  using assms by (induction hs arbitrary: env) (auto simp: export_header_def split: option.splits)

lemma cgi_variable_not_request:
  assumes "cgi_variable nm = Some var"
  shows "var \<notin> set request_variables"
proof -
  from assms have "(nm, var) \<in> set cgi_variables"
    unfolding cgi_variable_def by (rule map_of_SomeD)
  then have "var \<in> set (map snd cgi_variables)" by force
  then show ?thesis unfolding request_variables_def cgi_variables_def by auto
qed

lemma export_request_other:
  "export_request sy r env = Inr env1 \<Longrightarrow> var \<notin> set request_variables \<Longrightarrow> env1 var = env var"
  by (auto simp: export_request_def request_variables_def split: option.splits)

lemma handle_cgi_request_environ:
  assumes "handle_cgi_request sy env r = Inr (st, r', env')"
  obtains env1 p where "export_request sy r env = Inr env1"
    and "env' = fold export_header (headers r) env1"
    and "path r = Some p"
    and "r' = (case popen sy env' p of None \<Rightarrow> r | Some pfs \<Rightarrow> cgi_copy pfs r)"
proof -
  from assms obtain env1 where e1: "export_request sy r env = Inr env1"
    by (cases "export_request sy r env") (simp_all add: handle_cgi_request_def)
  let ?env2 = "fold export_header (headers r) env1"
  from assms e1 obtain p where p: "path r = Some p"
    by (cases "path r") (simp_all add: handle_cgi_request_def export_headers_fold)
  from assms e1 p
  have "env' = ?env2 \<and> r' = (case popen sy ?env2 p of None \<Rightarrow> r | Some pfs \<Rightarrow> cgi_copy pfs r)"
    by (cases "popen sy ?env2 p")
       (auto simp: handle_cgi_request_def export_headers_fold Let_def split: if_splits)
  with e1 p that show thesis by simp
qed

lemmas cgi_eval = handle_cgi_request_def export_request_def sample_cgi_request_def sample_request_def
  sample_sys_def fgets_def BUFSIZ_def read_line_def c_str_def fputs_def fwrite_def fflush_def

text \<open>
  The export loop on the header list it is given: when several headers of the list carry
  the same name of the export list, the variable holds the value of the last of them in
  the list when the handler has set the environment, and the script is run by \<open>popen\<close>
  under that environment.
\<close>

lemma handle_cgi_request_last_header:
  assumes "handle_cgi_request sy env r = Inr (st, r', env')"
    and "cgi_variable nm = Some var"
    and "filter (\<lambda>h. name h = nm) (headers r) \<noteq> []"
  shows "env' var = Some (value' (last (filter (\<lambda>h. name h = nm) (headers r))))
         \<and> (\<exists>p. path r = Some p
               \<and> r' = (case popen sy env' p of None \<Rightarrow> r | Some pfs \<Rightarrow> cgi_copy pfs r))"
proof -
  from assms(1) obtain env1 p where e: "env' = fold export_header (headers r) env1"
    and p: "path r = Some p"
      "r' = (case popen sy env' p of None \<Rightarrow> r | Some pfs \<Rightarrow> cgi_copy pfs r)"
    by (rule handle_cgi_request_environ)
  from e assms(2,3) have "env' var = Some (value' (last (filter (\<lambda>h. name h = nm) (headers r))))"
    by (simp add: fold_export_header_last)
  with p show ?thesis by blast
qed

lemma handle_cgi_request_two_accept:
  "map_sum id (\<lambda>(status, r', env'). (env' ''HTTP_ACCEPT'', written (file' r')))
     (handle_cgi_request sample_sys Map.empty
        (sample_cgi_request [\<lparr>name = ''Accept'', value' = ''text/html''\<rparr>,
                             \<lparr>name = ''Host'', value' = ''localhost''\<rparr>,
                             \<lparr>name = ''Accept'', value' = ''image/png''\<rparr>]))
   = Inr (Some ''image/png'', ''HTTP/1.0 200 OK'' @ [CR, LF, CR, LF] @ ''image/png'')"
proof -
  let ?hs = "[\<lparr>name = ''Accept'', value' = ''text/html''\<rparr>, \<lparr>name = ''Host'', value' = ''localhost''\<rparr>,
              \<lparr>name = ''Accept'', value' = ''image/png''\<rparr>]"
  have "\<exists>x. handle_cgi_request sample_sys Map.empty (sample_cgi_request ?hs) = Inr x"
    by (simp add: cgi_eval)
  then obtain status r' env' where
    ev: "handle_cgi_request sample_sys Map.empty (sample_cgi_request ?hs) = Inr (status, r', env')"
    by (metis prod_cases3)
  have hs: "headers (sample_cgi_request ?hs) = ?hs"
    by (simp add: sample_cgi_request_def)
  have cv: "cgi_variable ''Accept'' = Some ''HTTP_ACCEPT''"
    by (simp add: cgi_variable_def cgi_variables_def)
  from handle_cgi_request_last_header[OF ev cv]
  have a: "env' ''HTTP_ACCEPT'' = Some ''image/png''"
    and r: "\<exists>p. path (sample_cgi_request ?hs) = Some p
             \<and> r' = (case popen sample_sys env' p of None \<Rightarrow> sample_cgi_request ?hs
                     | Some pfs \<Rightarrow> cgi_copy pfs (sample_cgi_request ?hs))"
    unfolding hs by simp_all
  from r a have "written (file' r') = ''HTTP/1.0 200 OK'' @ [CR, LF, CR, LF] @ ''image/png''"
    by (simp add: cgi_eval)
  with a show ?thesis unfolding ev by simp
qed

text \<open>
  C7 as stated fails for \<open>Host\<close>: with no \<open>Host\<close> header in the list the handler never
  calls \<open>setenv\<close> for \<open>HTTP_HOST\<close>; started from an empty environment the variable is
  not set at all. (The empty string is exported only for a \<open>Host\<close> node whose value
  pointer is NULL, which \<open>parse_request_headers\<close> never builds.)
\<close>

theorem handle_cgi_request_no_host:
  "map_sum id (\<lambda>(status, r', env'). env' ''HTTP_HOST'')
     (handle_cgi_request sample_sys Map.empty
        (sample_cgi_request [\<lparr>name = ''Accept'', value' = ''text/html''\<rparr>]))
   = Inr None"
  by (simp add: cgi_eval)

lemma export_headers_Host_NULL:
  "export_headers [(''Host'', None)] env = Inr (env(''HTTP_HOST'' \<mapsto> []))"
  by simp

text \<open>
  C7, as amended. For each of the six names \<open>Host\<close>, \<open>Accept\<close>, \<open>Accept-Language\<close>,
  \<open>Accept-Encoding\<close>, \<open>Connection\<close>, \<open>User-Agent\<close>: when the header list holds a header of
  that name, its variable is exported with the value of such a header; when it holds none,
  the handler leaves the variable as the environment had it, for \<open>Host\<close> as for the
  others. No variable other than these six and the eight request variables is changed.
\<close>

theorem handle_cgi_request_exports:
  assumes "handle_cgi_request sy env r = Inr (st, r', env')"
  shows "(cgi_variable nm = Some var \<longrightarrow>
            (if nm \<in> name ` set (headers r)
             then env' var \<in> Some ` value' ` {h \<in> set (headers r). name h = nm}
             else env' var = env var))
         \<and> ((\<forall>n. cgi_variable n \<noteq> Some var) \<and> var \<notin> set request_variables \<longrightarrow>
              env' var = env var)"
proof -
  from assms obtain env1 p where e1: "export_request sy r env = Inr env1"
    and e: "env' = fold export_header (headers r) env1"
    by (rule handle_cgi_request_environ)
  have a: "env' var = env var" if "\<forall>n. cgi_variable n \<noteq> Some var" "var \<notin> set request_variables"
    using that e export_request_other[OF e1] by (simp add: fold_export_header_other)
  have b: "env' var \<in> Some ` value' ` {h \<in> set (headers r). name h = nm}"
    if "cgi_variable nm = Some var" "nm \<in> name ` set (headers r)"
  proof -
    let ?xs = "filter (\<lambda>h. name h = nm) (headers r)"
    from that(2) have ne: "?xs \<noteq> []" by (auto simp: filter_empty_conv)
    then have "last ?xs \<in> set ?xs" by (rule last_in_set)
    moreover have "env' var = Some (value' (last ?xs))"
      using e that(1) ne by (simp add: fold_export_header_last)
    ultimately show ?thesis by auto
  qed
  have c: "env' var = env var" if "cgi_variable nm = Some var" "nm \<notin> name ` set (headers r)"
  proof -
    from that(2) have "filter (\<lambda>h. name h = nm) (headers r) = []"
      by (auto simp: filter_empty_conv)
    with e that(1) have "env' var = env1 var" by (simp add: fold_export_header_last)
    also have "\<dots> = env var"
      using export_request_other[OF e1] cgi_variable_not_request[OF that(1)] by simp
    finally show ?thesis .
  qed
  from a b c show ?thesis by auto
qed

theorem handle_cgi_request_exports_sample:
  "map_sum id (\<lambda>(status, r', env'). (env' ''HTTP_ACCEPT'', env' ''HTTP_CONNECTION'', env' ''HOME''))
     (handle_cgi_request sample_sys [''HOME'' \<mapsto> ''/root'', ''HTTP_CONNECTION'' \<mapsto> ''close'']
        (sample_cgi_request [\<lparr>name = ''Accept'', value' = ''text/html''\<rparr>,
                             \<lparr>name = ''Cookie'', value' = ''a=b''\<rparr>]))
   = Inr (Some ''text/html'', Some ''close'', Some ''/root'')"
proof -
  let ?hs = "[\<lparr>name = ''Accept'', value' = ''text/html''\<rparr>, \<lparr>name = ''Cookie'', value' = ''a=b''\<rparr>]"
  let ?env = "[''HOME'' \<mapsto> ''/root'', ''HTTP_CONNECTION'' \<mapsto> ''close'']"
  have "\<exists>x. handle_cgi_request sample_sys ?env (sample_cgi_request ?hs) = Inr x"
    by (simp add: cgi_eval)
  then obtain status r' env' where
    ev: "handle_cgi_request sample_sys ?env (sample_cgi_request ?hs) = Inr (status, r', env')"
    by (metis prod_cases3)
  have hs: "headers (sample_cgi_request ?hs) = ?hs"
    by (simp add: sample_cgi_request_def)
  have cv: "cgi_variable ''Accept'' = Some ''HTTP_ACCEPT''"
    "cgi_variable ''Connection'' = Some ''HTTP_CONNECTION''"
    by (simp_all add: cgi_variable_def cgi_variables_def)
  have a: "env' ''HTTP_ACCEPT'' = Some ''text/html''"
    using handle_cgi_request_exports[OF ev, THEN conjunct1, rule_format, OF cv(1)]
    unfolding hs by auto
  have b: "env' ''HTTP_CONNECTION'' = Some ''close''"
    using handle_cgi_request_exports[OF ev, THEN conjunct1, rule_format, OF cv(2)]
    unfolding hs by auto
  have "\<forall>n. cgi_variable n \<noteq> Some ''HOME''"
    by (auto simp: cgi_variable_def cgi_variables_def)
  then have c: "env' ''HOME'' = Some ''/root''"
    using handle_cgi_request_exports[OF ev, THEN conjunct2, rule_format, of "''HOME''"]
    by (simp add: request_variables_def)
  show ?thesis unfolding ev using a b c by simp
qed

section \<open>The directory listing\<close>

lemma basename_idem: "fst (basename (snd (basename po))) = fst (basename po)"
proof (cases po)
  case None
  then show ?thesis by (simp add: basename_def)
next
  case (Some p)
  define q where "q = rev (dropWhile (\<lambda>c. c = CHR ''/'') (rev p))"
  have bp: "basename (Some p) =
              (if p = [] then (''.'', Some p)
               else if q = [] then (''/'', Some p)
               else (rev (takeWhile (\<lambda>c. c \<noteq> CHR ''/'') (rev q)), Some q))"
    unfolding basename_def Let_def q_def by simp
  have qq: "rev (dropWhile (\<lambda>c. c = CHR ''/'') (rev q)) = q"
    by (simp add: q_def dropWhile_idem)
  have bq: "basename (Some q) =
              (if q = [] then (''.'', Some q)
               else (rev (takeWhile (\<lambda>c. c \<noteq> CHR ''/'') (rev q)), Some q))"
    unfolding basename_def Let_def option.case qq by simp
  have b0: "basename (Some []) = (''.'', Some [])"
    by (simp add: basename_def)
  show ?thesis
    unfolding Some by (auto simp: bp bq b0)
qed

lemma listing_item_basename: "listing_item u (snd (basename po)) e = listing_item u po e"
  by (simp add: listing_item_def basename_idem)

lemma browse_entries_written:
  assumes "uri r = Some u"
  shows "\<exists>r'. browse_entries es r = Inr r'
           \<and> written (file' r') =
               written (file' r) @ concat (map (listing_item u (path r)) (filter (\<lambda>e. e \<noteq> ''.'') es))
           \<and> fflush (file' r') = fflush (file' r)"
  using assms
proof (induction es arbitrary: r)
  case Nil
  then show ?case by simp
next
  case (Cons e es)
  show ?case
  proof (cases "e = ''.''")
    case True
    with Cons show ?thesis by simp
  next
    case False
    show ?thesis
    proof (cases "u = ''/''")
      case True
      let ?r1 = "fprintf r (''<li><a href='' @ [DQUOTE] @ ''/'' @ e @ [DQUOTE]
                       @ ''>'' @ e @ ''</a></li>'' @ [CR, LF])"
      have u1: "uri ?r1 = Some u" using Cons.prems by (simp add: fprintf_def)
      from Cons.IH[OF u1] obtain r' where r': "browse_entries es ?r1 = Inr r'"
        "written (file' r') = written (file' ?r1) @ concat (map (listing_item u (path ?r1)) (filter (\<lambda>e. e \<noteq> ''.'') es))"
        "fflush (file' r') = fflush (file' ?r1)" by blast
      have p1: "path ?r1 = path r" by (simp add: fprintf_def)
      have "browse_entries (e # es) r = Inr r'"
        using False True Cons.prems r'(1) by simp
      moreover have "written (file' ?r1) = written (file' r) @ listing_item u (path r) e"
        using True by (simp add: fprintf_def listing_item_def)
      with r'(2) have "written (file' r') = written (file' r) @ concat (map (listing_item u (path r)) (filter (\<lambda>e. e \<noteq> ''.'') (e # es)))"
        unfolding p1 using False by simp
      moreover have "fflush (file' r') = fflush (file' r)"
        using r'(3) by (simp add: fprintf_def fflush_def)
      ultimately show ?thesis by blast
    next
      case nroot: False
      obtain base p' where b: "basename (path r) = (base, p')" by (cases "basename (path r)")
      let ?r1 = "fprintf (r\<lparr>path := p'\<rparr>) (''<li><a href='' @ [DQUOTE] @ ''/'' @ base @ ''/'' @ e @ [DQUOTE]
                            @ ''>'' @ e @ ''</a></li>'' @ [CR, LF])"
      have u1: "uri ?r1 = Some u" using Cons.prems by (simp add: fprintf_def)
      from Cons.IH[OF u1] obtain r' where r': "browse_entries es ?r1 = Inr r'"
        "written (file' r') = written (file' ?r1) @ concat (map (listing_item u (path ?r1)) (filter (\<lambda>e. e \<noteq> ''.'') es))"
        "fflush (file' r') = fflush (file' ?r1)" by blast
      have p1: "path ?r1 = snd (basename (path r))" using b by (simp add: fprintf_def)
      have "browse_entries (e # es) r = Inr r'"
        using False nroot Cons.prems r'(1) b by simp
      moreover have "written (file' ?r1) = written (file' r) @ listing_item u (path r) e"
        using nroot b by (simp add: fprintf_def listing_item_def)
      with r'(2) have "written (file' r') = written (file' r) @ concat (map (listing_item u (path r)) (filter (\<lambda>e. e \<noteq> ''.'') (e # es)))"
        unfolding p1 listing_item_basename using False by simp
      moreover have "fflush (file' r') = fflush (file' r)"
        using r'(3) by (simp add: fprintf_def fflush_def)
      ultimately show ?thesis by blast
    qed
  qed
qed

text \<open>
  C6. For a request whose directory can be scanned, \<open>handle_browse_request\<close> writes the
  response head and one list item for each entry other than \<open>.\<close>, in the order of the
  sorted names (\<open>..\<close> and names starting with a dot included); the target of each anchor is
  the entry name alone when the URI is \<open>/\<close>, and the entry name after the base name of the
  resolved path for any other URI. It returns OK, or NotFound when the flush fails.
\<close>

theorem handle_browse_request_listing:
  assumes "path r = Some p" and "uri r = Some u" and "readdir sy p = Some es"
  shows "map_sum id (\<lambda>(status, r'). (status, written (file' r'))) (handle_browse_request sy r)
           = Inr (if fflush (file' r) then HTTP_STATUS_OK else HTTP_STATUS_NOT_FOUND,
                  written (file' r) @ ''HTTP/1.0 200 OK'' @ [CR, LF]
                    @ ''Content-Type: text/html'' @ [CR, LF] @ [CR, LF] @ ''<ul>'' @ [CR, LF]
                    @ concat (map (listing_item u (Some p)) (filter (\<lambda>e. e \<noteq> ''.'') (sort es)))
                    @ ''</ul>'' @ [CR, LF])
         \<and> sorted (filter (\<lambda>e. e \<noteq> ''.'') (sort es))
         \<and> set (filter (\<lambda>e. e \<noteq> ''.'') (sort es)) = set es - {''.''}"
proof -
  let ?r4 = "fprintf (fprintf (fprintf (fprintf r (''HTTP/1.0 200 OK'' @ [CR, LF]))
                (''Content-Type: text/html'' @ [CR, LF])) [CR, LF]) (''<ul>'' @ [CR, LF])"
  have u4: "uri ?r4 = Some u" using assms(2) by (simp add: fprintf_def)
  from browse_entries_written[OF u4, of "sort es"] obtain r5 where r5:
    "browse_entries (sort es) ?r4 = Inr r5"
    "written (file' r5) = written (file' ?r4) @ concat (map (listing_item u (path ?r4)) (filter (\<lambda>e. e \<noteq> ''.'') (sort es)))"
    "fflush (file' r5) = fflush (file' ?r4)" by blast
  have p4: "path ?r4 = Some p" using assms(1) by (simp add: fprintf_def)
  have "map_sum id (\<lambda>(status, r'). (status, written (file' r'))) (handle_browse_request sy r)
           = Inr (if fflush (file' r) then HTTP_STATUS_OK else HTTP_STATUS_NOT_FOUND,
                  written (file' r) @ ''HTTP/1.0 200 OK'' @ [CR, LF]
                    @ ''Content-Type: text/html'' @ [CR, LF] @ [CR, LF] @ ''<ul>'' @ [CR, LF]
                    @ concat (map (listing_item u (Some p)) (filter (\<lambda>e. e \<noteq> ''.'') (sort es)))
                    @ ''</ul>'' @ [CR, LF])"
    using assms r5 unfolding p4
    by (simp add: handle_browse_request_def scandir_def Let_def) (simp add: fprintf_def fflush_def)
  moreover have "sorted (filter (\<lambda>e. e \<noteq> ''.'') (sort es))"
    by (simp add: sorted_wrt_filter)
  moreover have "set (filter (\<lambda>e. e \<noteq> ''.'') (sort es)) = set es - {''.''}"
    by auto
  ultimately show ?thesis by blast
qed

theorem handle_browse_request_docs:
  "map_sum id (\<lambda>(status, r'). (status, written (file' r')))
     (handle_browse_request sample_sys
        ((sample_request [] True)\<lparr>uri := Some ''/docs'', path := Some ''/srv/www/docs''\<rparr>))
   = Inr (HTTP_STATUS_OK,
          ''HTTP/1.0 200 OK'' @ [CR, LF] @ ''Content-Type: text/html'' @ [CR, LF] @ [CR, LF]
            @ ''<ul>'' @ [CR, LF]
            @ ''<li><a href='' @ [DQUOTE] @ ''/docs/..'' @ [DQUOTE] @ ''>..</a></li>'' @ [CR, LF]
            @ ''<li><a href='' @ [DQUOTE] @ ''/docs/a.txt'' @ [DQUOTE] @ ''>a.txt</a></li>'' @ [CR, LF]
            @ ''<li><a href='' @ [DQUOTE] @ ''/docs/b.txt'' @ [DQUOTE] @ ''>b.txt</a></li>'' @ [CR, LF]
            @ ''</ul>'' @ [CR, LF])"
proof -
  have s: "sort [''b.txt'', ''..'', ''a.txt'', ''.''] = [''.'', ''..'', ''a.txt'', ''b.txt'']"
    by code_simp
  have rd: "readdir sample_sys ''/srv/www/docs'' = Some [''b.txt'', ''..'', ''a.txt'', ''.'']"
    by (simp add: sample_sys_def)
  show ?thesis
    using handle_browse_request_listing
      [of "(sample_request [] True)\<lparr>uri := Some ''/docs'', path := Some ''/srv/www/docs''\<rparr>"
          "''/srv/www/docs''" "''/docs''" sample_sys "[''b.txt'', ''..'', ''a.txt'', ''.'']"]
    unfolding s using rd
    by (simp add: sample_request_def listing_item_def basename_def fflush_def)
qed

section \<open>Dispatch\<close>

lemma handle_error_response:
  "(case handle_error sy r status of (result, r') \<Rightarrow> (result, r', env))
     = error_response sy env r status"
  "(case handle_error sy r status of (result, r') \<Rightarrow> Inr (result, r', env))
     = Inr (error_response sy env r status)"
  by (simp_all add: handle_error_def error_response_def error_page_def fprintf_def fflush_def Let_def)

lemmas parse_eval = parse_request_def parse_request_method_def parse_request_headers_def
  sample_request_def sample_WHITESPACE_def fgets_def BUFSIZ_def read_line_def c_str_def
  strtok_def strchr_def parse_header_line_def skip_nonwhitespace_def skip_whitespace_def
  isspace_def link_header_def

lemma sample_sys_WHITESPACE: "WHITESPACE sample_sys = sample_WHITESPACE"
  by (simp add: sample_sys_def)

lemma sample_parse_request:
  "parse_request sample_WHITESPACE (sample_request (''GET /docs HTTP/1.0'' @ [LF, LF]) True)
     = Inr (0, sample_parsed ''/docs'')"
  "parse_request sample_WHITESPACE (sample_request (''GET /hello.sh HTTP/1.0'' @ [LF, LF]) True)
     = Inr (0, sample_parsed ''/hello.sh'')"
  "parse_request sample_WHITESPACE (sample_request (''GET /index.html HTTP/1.0'' @ [LF, LF]) True)
     = Inr (0, sample_parsed ''/index.html'')"
  "parse_request sample_WHITESPACE (sample_request (''GET /pipe HTTP/1.0'' @ [LF, LF]) True)
     = Inr (0, sample_parsed ''/pipe'')"
  "parse_request sample_WHITESPACE (sample_request (''GET /missing HTTP/1.0'' @ [LF, LF]) True)
     = Inr (0, sample_parsed ''/missing'')"
  by (simp_all add: parse_eval sample_parsed_def)

text \<open>
  C3. For a request that parses, \<open>handle_request\<close> answers NotFound through the error
  responder when the path does not resolve; for a resolved path whose entry \<open>lstat\<close>
  reports, it runs the directory listing handler on a directory, the CGI handler on a
  regular file that may be executed, the static file handler on any other regular file
  (each followed by the step that routes a status other than OK through the error
  responder), and answers BadRequest through the error responder for every other type of
  entry.
\<close>

theorem handle_request_dispatch:
  assumes "parse_request (WHITESPACE sy) r = Inr (0, r1)"
  shows "handle_request sy env r =
     (case determine_request_path sy (uri r1) of
        None \<Rightarrow> Inr (error_response sy env (r1\<lparr>path := None\<rparr>) HTTP_STATUS_NOT_FOUND)
      | Some p \<Rightarrow>
          (case lstat sy p of
             None \<Rightarrow> Inl Uninitialised
           | Some t \<Rightarrow>
               (case classify t (access_X_OK sy p) of
                  Directory \<Rightarrow>
                    map_sum id (\<lambda>(status, r'). route_status sy (status, r', env))
                      (handle_browse_request sy (r1\<lparr>path := Some p\<rparr>))
                | Executable \<Rightarrow>
                    map_sum id (route_status sy) (handle_cgi_request sy env (r1\<lparr>path := Some p\<rparr>))
                | Regular \<Rightarrow>
                    map_sum id (\<lambda>(status, r'). route_status sy (status, r', env))
                      (handle_file_request sy (r1\<lparr>path := Some p\<rparr>))
                | Unsupported \<Rightarrow>
                    Inr (error_response sy env (r1\<lparr>path := Some p\<rparr>) HTTP_STATUS_BAD_REQUEST))))"
proof (cases "determine_request_path sy (uri r1)")
  case None
  then show ?thesis
    using assms by (simp add: handle_request_def handle_error_response)
next
  case (Some p)
  show ?thesis
  proof (cases "lstat sy p")
    case None
    then show ?thesis using assms Some by (simp add: handle_request_def)
  next
    case st: (Some t)
    have bad: "route_status sy (HTTP_STATUS_BAD_REQUEST, r1\<lparr>path := Some p\<rparr>, env)
                 = error_response sy env (r1\<lparr>path := Some p\<rparr>) HTTP_STATUS_BAD_REQUEST"
      by (simp add: route_status_def handle_error_response)
    show ?thesis
    proof (cases t)
      case S_IFDIR
      then show ?thesis
        using assms Some st
        by (cases "handle_browse_request sy (r1\<lparr>path := Some p\<rparr>)")
           (auto simp: handle_request_def classify_def)
    next
      case S_IFREG
      show ?thesis
      proof (cases "access_X_OK sy p")
        case True
        then show ?thesis
          using assms Some st S_IFREG
          by (cases "handle_cgi_request sy env (r1\<lparr>path := Some p\<rparr>)")
             (auto simp: handle_request_def classify_def)
      next
        case False
        then show ?thesis
          using assms Some st S_IFREG
          by (cases "handle_file_request sy (r1\<lparr>path := Some p\<rparr>)")
             (auto simp: handle_request_def classify_def)
      qed
    qed (use assms Some st bad in \<open>simp_all add: handle_request_def classify_def\<close>)
  qed
qed

theorem handle_request_dispatch_sample:
  "handle_request sample_sys Map.empty (sample_request (''GET /docs HTTP/1.0'' @ [LF, LF]) True)
     = map_sum id (\<lambda>(status, r'). route_status sample_sys (status, r', Map.empty))
         (handle_browse_request sample_sys ((sample_parsed ''/docs'')\<lparr>path := Some ''/srv/www/docs''\<rparr>))
   \<and> handle_request sample_sys Map.empty (sample_request (''GET /hello.sh HTTP/1.0'' @ [LF, LF]) True)
     = map_sum id (route_status sample_sys)
         (handle_cgi_request sample_sys Map.empty
            ((sample_parsed ''/hello.sh'')\<lparr>path := Some ''/srv/www/hello.sh''\<rparr>))
   \<and> handle_request sample_sys Map.empty (sample_request (''GET /index.html HTTP/1.0'' @ [LF, LF]) True)
     = map_sum id (\<lambda>(status, r'). route_status sample_sys (status, r', Map.empty))
         (handle_file_request sample_sys
            ((sample_parsed ''/index.html'')\<lparr>path := Some ''/srv/www/index.html''\<rparr>))
   \<and> handle_request sample_sys Map.empty (sample_request (''GET /pipe HTTP/1.0'' @ [LF, LF]) True)
     = Inr (error_response sample_sys Map.empty
              ((sample_parsed ''/pipe'')\<lparr>path := Some ''/srv/www/pipe''\<rparr>) HTTP_STATUS_BAD_REQUEST)
   \<and> handle_request sample_sys Map.empty (sample_request (''GET /missing HTTP/1.0'' @ [LF, LF]) True)
     = Inr (error_response sample_sys Map.empty
              ((sample_parsed ''/missing'')\<lparr>path := None\<rparr>) HTTP_STATUS_NOT_FOUND)"
proof -
  note p = sample_parse_request[folded sample_sys_WHITESPACE]
  have u: "uri (sample_parsed u) = Some u" for u by (simp add: sample_parsed_def)
  have fs: "determine_request_path sample_sys (Some ''/docs'') = Some ''/srv/www/docs''"
    "determine_request_path sample_sys (Some ''/hello.sh'') = Some ''/srv/www/hello.sh''"
    "determine_request_path sample_sys (Some ''/index.html'') = Some ''/srv/www/index.html''"
    "determine_request_path sample_sys (Some ''/pipe'') = Some ''/srv/www/pipe''"
    "determine_request_path sample_sys (Some ''/missing'') = None"
    "lstat sample_sys ''/srv/www/docs'' = Some S_IFDIR"
    "lstat sample_sys ''/srv/www/hello.sh'' = Some S_IFREG"
    "lstat sample_sys ''/srv/www/index.html'' = Some S_IFREG"
    "lstat sample_sys ''/srv/www/pipe'' = Some S_IFIFO"
    "access_X_OK sample_sys ''/srv/www/hello.sh''"
    "\<not> access_X_OK sample_sys ''/srv/www/index.html''"
    by (simp_all add: sample_sys_def)
  show ?thesis
    using handle_request_dispatch[OF p(1), of Map.empty]
      handle_request_dispatch[OF p(2), of Map.empty]
      handle_request_dispatch[OF p(3), of Map.empty]
      handle_request_dispatch[OF p(4), of Map.empty]
      handle_request_dispatch[OF p(5), of Map.empty]
    by (simp add: u fs classify_def)
qed

section \<open>Malformed requests\<close>


























section \<open>Repeated headers, from the request to the script\<close>

text \<open>
  C10 fails on the code. Of the four headers \<open>Accept: a\<close>, \<open>Host: h\<close>, \<open>Accept: b\<close>,
  \<open>User-Agent: u\<close> the list \<open>parse_request_headers\<close> builds keeps the first, the second
  and the last: the second \<open>Accept\<close> header, the last of that name to arrive, is not in the
  list \<open>handle_cgi_request\<close> walks, and the script is run with \<open>HTTP_ACCEPT\<close> set to
  \<open>a\<close>, the value of the first one.
\<close>

theorem handle_request_repeated_accept:
  "map_sum id (\<lambda>(status, r', env').
                  (status, map (\<lambda>h. (name h, value' h)) (headers r'), env' ''HTTP_ACCEPT'',
                   written (file' r')))
     (handle_request sample_sys Map.empty
        (sample_request (''GET /hello.sh HTTP/1.0'' @ [CR, LF] @ ''Accept: a'' @ [CR, LF]
                           @ ''Host: h'' @ [CR, LF] @ ''Accept: b'' @ [CR, LF]
                           @ ''User-Agent: u'' @ [CR, LF] @ [CR, LF]) True))
   = Inr (HTTP_STATUS_OK, [(''Accept'', ''a''), (''Host'', ''h''), (''User-Agent'', ''u'')],
          Some ''a'', ''HTTP/1.0 200 OK'' @ [CR, LF, CR, LF] @ ''a'')"
proof -
  let ?hs = "[\<lparr>name = ''Accept'', value' = ''a''\<rparr>, \<lparr>name = ''Host'', value' = ''h''\<rparr>,
              \<lparr>name = ''User-Agent'', value' = ''u''\<rparr>]"
  have p: "parse_request (WHITESPACE sample_sys)
             (sample_request (''GET /hello.sh HTTP/1.0'' @ [CR, LF] @ ''Accept: a'' @ [CR, LF]
                           @ ''Host: h'' @ [CR, LF] @ ''Accept: b'' @ [CR, LF]
                           @ ''User-Agent: u'' @ [CR, LF] @ [CR, LF]) True)
           = Inr (0, (sample_request [] True)
                       \<lparr>method' := Some ''GET'', uri := Some ''/hello.sh'', headers := ?hs\<rparr>)"
    by (simp add: parse_eval sample_sys_WHITESPACE)
  have fs: "determine_request_path sample_sys (Some ''/hello.sh'') = Some ''/srv/www/hello.sh''"
    "lstat sample_sys ''/srv/www/hello.sh'' = Some S_IFREG"
    "access_X_OK sample_sys ''/srv/www/hello.sh''"
    by (simp_all add: sample_sys_def)
  have c: "handle_cgi_request sample_sys Map.empty
             ((sample_request [] True)
                \<lparr>method' := Some ''GET'', uri := Some ''/hello.sh'', headers := ?hs,
                  path := Some ''/srv/www/hello.sh''\<rparr>)
           = Inr (HTTP_STATUS_OK, r', env') \<Longrightarrow>
           env' ''HTTP_ACCEPT'' = Some ''a'' \<and> headers r' = ?hs
           \<and> written (file' r') = ''HTTP/1.0 200 OK'' @ [CR, LF, CR, LF] @ ''a''" for r' env'
    by (simp add: cgi_eval) auto
  have ex: "\<exists>r' env'. handle_cgi_request sample_sys Map.empty
             ((sample_request [] True)
                \<lparr>method' := Some ''GET'', uri := Some ''/hello.sh'', headers := ?hs,
                  path := Some ''/srv/www/hello.sh''\<rparr>)
           = Inr (HTTP_STATUS_OK, r', env')"
    by (simp add: cgi_eval)
  then obtain r' env' where ev: "handle_cgi_request sample_sys Map.empty
             ((sample_request [] True)
                \<lparr>method' := Some ''GET'', uri := Some ''/hello.sh'', headers := ?hs,
                  path := Some ''/srv/www/hello.sh''\<rparr>)
           = Inr (HTTP_STATUS_OK, r', env')" by blast
  from c[OF ev] ev show ?thesis
    unfolding handle_request_def p by (simp add: fs route_status_def)
qed

end
